theory Spec2Isabelle
  imports Main "HOL-Library.Sublist" "HOL-Library.Multiset"
begin

section \<open>Strings, integers and exceptions of the host language\<close>

text \<open>
  The planner is the Python function \<open>create_workout_plan\<close> of
  \<open>workout_planner_tool.py\<close>. Strings are lists of 8-bit characters, read as the code
  points below 256; integers are unbounded. A raised exception is a value of \<open>exn\<close>
  on the left of a sum.
\<close>

datatype exn = KeyError string | ValueError

text \<open>\<open>d[k]\<close> on a dictionary: the value, or \<open>KeyError\<close>.\<close>

definition getitem :: "(string \<rightharpoonup> 'v) \<Rightarrow> string \<Rightarrow> exn + 'v" where
  "getitem d k = (case d k of None \<Rightarrow> Inl (KeyError k) | Some v \<Rightarrow> Inr v)"

text \<open>Sequencing of two computations that may raise.\<close>

definition and_then :: "exn + 'a \<Rightarrow> ('a \<Rightarrow> exn + 'b) \<Rightarrow> exn + 'b" where
  "and_then m f = (case m of Inl e \<Rightarrow> Inl e | Inr v \<Rightarrow> f v)"

definition newline :: char where
  "newline = CHR 0x0A"

text \<open>
  \<open>str.lower\<close> on the code points below 256: the ASCII capitals and the Latin-1
  capitals (all of 0xC0..0xDE but the multiplication sign 0xD7) move up by 32.
\<close>

definition lower_char :: "char \<Rightarrow> char" where
  "lower_char c =
     (let n = (of_char c :: nat)
      in if (65 \<le> n \<and> n \<le> 90) \<or> (192 \<le> n \<and> n \<le> 222 \<and> n \<noteq> 215)
         then char_of (n + 32) else c)"

definition lower :: "string \<Rightarrow> string" where
  "lower s = map lower_char s"

text \<open>\<open>sub in s\<close> on strings: \<open>sub\<close> occurs in \<open>s\<close> as a contiguous run.\<close>

fun str_in :: "string \<Rightarrow> string \<Rightarrow> bool" where
  "str_in sub [] = (sub = [])"
| "str_in sub (c # cs) = (prefix sub (c # cs) \<or> str_in sub cs)"

text \<open>\<open>str(n)\<close> on an integer: decimal digits, a minus sign first when negative.\<close>

definition digit_char :: "nat \<Rightarrow> char" where
  "digit_char n = char_of (48 + n)"

function digits :: "nat \<Rightarrow> string" where
  "digits n = (if n < 10 then [digit_char n] else digits (n div 10) @ [digit_char (n mod 10)])"
  by pat_completeness auto
termination
  by (relation "measure id") auto

definition str :: "int \<Rightarrow> string" where
  "str i = (if i < 0 then CHR ''-'' # digits (nat (- i)) else digits (nat i))"

section \<open>The random source\<close>

text \<open>
  The process-wide random source is a stream of raw draws, threaded through the
  planner. \<open>random.sample(population, k)\<close> is a library function: it raises
  \<open>ValueError\<close> when \<open>k\<close> exceeds the population, and otherwise draws \<open>k\<close> times
  without replacement: each draw takes a position below the number of entries still
  available and makes that entry unavailable. The outcomes of \<open>draw\<close> are exactly the
  lists of entries at pairwise distinct positions of the population (lemmas
  \<open>draw_positions\<close> and \<open>draw_complete\<close>), which is all the planner relies on.
\<close>

type_synonym rng = "nat \<Rightarrow> nat"

definition randbelow :: "nat \<Rightarrow> rng \<Rightarrow> nat \<times> rng" where
  "randbelow n g = (g 0 mod n, \<lambda>i. g (Suc i))"

fun draw :: "'a list \<Rightarrow> nat \<Rightarrow> rng \<Rightarrow> 'a list \<times> rng" where
  "draw pool 0 g = ([], g)"
| "draw pool (Suc k) g =
     (case randbelow (length pool) g of (j, g') \<Rightarrow>
        (case draw (take j pool @ drop (Suc j) pool) k g' of (rest, g'') \<Rightarrow>
           (pool ! j # rest, g'')))"

definition sample :: "'a list \<Rightarrow> nat \<Rightarrow> rng \<Rightarrow> exn + ('a list \<times> rng)" where
  "sample population k g =
     (if length population < k then Inl ValueError else Inr (draw population k g))"

section \<open>The catalogs\<close>

definition exercises :: "string \<rightharpoonup> (string \<rightharpoonup> string list)" where
  "exercises = map_of
     [(''beginner'', map_of
         [(''full gym'', [''Leg press'', ''Chest press machine'', ''Treadmill'',
                          ''Seated cable rows'', ''Machine shoulder press'']),
          (''basic dumbbells'', [''Dumbbell squats'', ''Dumbbell bench press'', ''Dumbbell rows'',
                                 ''Dumbbell lunges'', ''Dumbbell curls'']),
          (''no equipment'', [''Bodyweight squats'', ''Push-ups'', ''Walking lunges'',
                              ''Plank'', ''Mountain climbers''])]),
      (''intermediate'', map_of
         [(''full gym'', [''Barbell squats'', ''Bench press'', ''Lat pulldowns'',
                          ''Romanian deadlifts'', ''Cable face pulls'']),
          (''basic dumbbells'', [''Dumbbell lunges'', ''Dumbbell overhead press'',
                                 ''Dumbbell deadlifts'', ''Dumbbell flyes'',
                                 ''Dumbbell renegade rows'']),
          (''no equipment'', [''Jump squats'', ''Diamond push-ups'', ''Burpees'',
                              ''Superman holds'', ''Mountain climbers''])]),
      (''advanced'', map_of
         [(''full gym'', [''Deadlifts'', ''Weighted pull-ups'', ''Barbell rows'',
                          ''Front squats'', ''Overhead press'']),
          (''basic dumbbells'', [''Dumbbell clean and press'', ''Renegade rows'',
                                 ''Bulgarian split squats'', ''Single-leg Romanian deadlifts'',
                                 ''Dumbbell thrusters'']),
          (''no equipment'', [''Pistol squats'', ''One-arm push-ups'', ''Muscle-ups'',
                              ''Plyometric lunges'', ''L-sit holds''])])]"

definition body_weight_exercises :: "string \<rightharpoonup> string list" where
  "body_weight_exercises = map_of
     [(''beginner'', [''Bodyweight squats'', ''Push-ups'', ''Lunges'', ''Plank'',
                      ''Mountain climbers'', ''Bird dogs'', ''Glute bridges'']),
      (''intermediate'', [''Jump squats'', ''Diamond push-ups'', ''Burpees'',
                          ''Spider-man push-ups'', ''V-ups'', ''Box jumps'', ''Flutter kicks'']),
      (''advanced'', [''Pistol squats'', ''One-arm push-ups'', ''Plyometric lunges'',
                      ''Handstand push-ups'', ''L-sit holds'', ''Muscle-ups'',
                      ''Planche progressions''])]"

section \<open>The planner\<close>

text \<open>The cell \<open>exercises[level][equipment]\<close>: two lookups, either of which may raise.\<close>

definition cell :: "string \<Rightarrow> string \<Rightarrow> exn + string list" where
  "cell level equipment = and_then (getitem exercises level) (\<lambda>row. getitem row equipment)"

text \<open>Lines 110 to 123: the candidate pool, by tier and by the body-weight flag.\<close>

definition exercise_pool :: "string \<Rightarrow> string \<Rightarrow> bool \<Rightarrow> exn + string list" where
  "exercise_pool fitness_level equipment body_weight_only =
     (if body_weight_only then
        (if fitness_level = ''beginner'' then
           getitem body_weight_exercises ''beginner''
         else if fitness_level = ''intermediate'' then
           and_then (getitem body_weight_exercises ''beginner'') (\<lambda>b.
           and_then (getitem body_weight_exercises ''intermediate'') (\<lambda>i.
           Inr (b @ i)))
         else
           and_then (getitem body_weight_exercises ''beginner'') (\<lambda>b.
           and_then (getitem body_weight_exercises ''intermediate'') (\<lambda>i.
           and_then (getitem body_weight_exercises ''advanced'') (\<lambda>a.
           Inr (b @ i @ a)))))
      else
        (if fitness_level = ''beginner'' then
           cell ''beginner'' equipment
         else if fitness_level = ''intermediate'' then
           and_then (cell ''beginner'' equipment) (\<lambda>b.
           and_then (cell ''intermediate'' equipment) (\<lambda>i.
           Inr (b @ i)))
         else
           and_then (cell ''beginner'' equipment) (\<lambda>b.
           and_then (cell ''intermediate'' equipment) (\<lambda>i.
           and_then (cell ''advanced'' equipment) (\<lambda>a.
           Inr (b @ i @ a))))))"

text \<open>Line 129: the rep range, decided by the goal alone.\<close>

definition reps :: "string \<Rightarrow> string" where
  "reps goal =
     (if str_in ''weight'' (lower goal) \<or> str_in ''muscle'' (lower goal)
      then ''10-15 reps'' else ''30-60 seconds'')"

text \<open>Line 130: one exercise line.\<close>

definition exercise_line :: "string \<Rightarrow> string \<Rightarrow> string" where
  "exercise_line goal exercise =
     ''- '' @ exercise @ '': 3 sets of '' @ reps goal @ [newline]"

text \<open>Lines 128 to 130: the inner loop appends one line for each drawn exercise.\<close>

fun exercise_lines :: "string \<Rightarrow> string list \<Rightarrow> string \<Rightarrow> string" where
  "exercise_lines goal [] workout_plan = workout_plan"
| "exercise_lines goal (exercise # rest) workout_plan =
     exercise_lines goal rest (workout_plan @ exercise_line goal exercise)"

definition cool_down :: string where
  "cool_down = ''- Cool-down: 5-10 minutes of light stretching'' @ [newline, newline]"

text \<open>Lines 125 to 131: the loop over the days, threading the text and the random source.\<close>

fun days_loop ::
  "string \<Rightarrow> string list \<Rightarrow> int list \<Rightarrow> string \<Rightarrow> rng \<Rightarrow> exn + (string \<times> rng)" where
  "days_loop goal pool [] workout_plan g = Inr (workout_plan, g)"
| "days_loop goal pool (day # days) workout_plan g =
     (case sample pool (min 5 (length pool)) g of
        Inl e \<Rightarrow> Inl e
      | Inr (daily_exercises, g') \<Rightarrow>
          days_loop goal pool days
            (exercise_lines goal daily_exercises
               (workout_plan @ ''Day '' @ str day @ '':'' @ [newline]) @ cool_down) g')"

text \<open>Lines 107 and 108: the header.\<close>

definition header :: "string \<Rightarrow> string \<Rightarrow> int \<Rightarrow> string \<Rightarrow> bool \<Rightarrow> string" where
  "header fitness_level goal days_per_week equipment body_weight_only =
     ''Workout Plan ('' @ fitness_level @ '' level, '' @ goal @ '' focus, ''
       @ str days_per_week @ '' days/week, ''
       @ (if body_weight_only then ''body weight only'' else equipment)
       @ ''):'' @ [newline, newline]"

text \<open>Lines 133 and 134: \<open>if duration\<close> holds for an integer other than zero.\<close>

definition duration_line :: "int \<Rightarrow> string" where
  "duration_line d =
     ''Aim to complete each workout session in about '' @ str d @ '' minutes.'' @ [newline]"

definition advisory :: "int option \<Rightarrow> string" where
  "advisory duration =
     (case duration of None \<Rightarrow> [] | Some d \<Rightarrow> if d \<noteq> 0 then duration_line d else [])"

definition invalid_fitness_level :: string where
  "invalid_fitness_level =
     ''Invalid fitness level. Please choose beginner, intermediate, or advanced.''"

definition invalid_day_count :: string where
  "invalid_day_count = ''Invalid number of days. Please choose between 1 and 7.''"

definition invalid_equipment :: string where
  "invalid_equipment =
     ''Invalid equipment option. Please choose full gym, basic dumbbells, or no equipment.''"

definition create_workout_plan ::
  "string \<Rightarrow> string \<Rightarrow> int \<Rightarrow> string \<Rightarrow> bool \<Rightarrow> int option \<Rightarrow> rng \<Rightarrow> exn + (string \<times> rng)" where
  "create_workout_plan fitness_level goal days_per_week equipment body_weight_only duration g =
     (if exercises fitness_level = None then Inr (invalid_fitness_level, g)
      else if days_per_week < 1 \<or> days_per_week > 7 then Inr (invalid_day_count, g)
      else if equipment \<notin> set [''full gym'', ''basic dumbbells'', ''no equipment'']
        then Inr (invalid_equipment, g)
      else
        and_then (exercise_pool fitness_level equipment body_weight_only) (\<lambda>pool.
        and_then (days_loop goal pool [1 .. days_per_week]
                    (header fitness_level goal days_per_week equipment body_weight_only) g)
          (\<lambda>(workout_plan, g'). Inr (workout_plan @ advisory duration, g'))))"

section \<open>Notions used to state the properties\<close>

text \<open>A request is valid when it passes the three checks of lines 98 to 105.\<close>

definition valid_request :: "string \<Rightarrow> int \<Rightarrow> string \<Rightarrow> bool" where
  "valid_request fitness_level days_per_week equipment \<longleftrightarrow>
     exercises fitness_level \<noteq> None
     \<and> \<not> (days_per_week < 1 \<or> days_per_week > 7)
     \<and> equipment \<in> set [''full gym'', ''basic dumbbells'', ''no equipment'']"

text \<open>
  The selections that \<open>n\<close> successive days draw from a pool, each with the random
  source the day before left behind, and the random source after the last day.
\<close>

fun day_selections :: "'a list \<Rightarrow> nat \<Rightarrow> rng \<Rightarrow> 'a list list" where
  "day_selections pool 0 g = []"
| "day_selections pool (Suc n) g =
     fst (draw pool (min 5 (length pool)) g)
       # day_selections pool n (snd (draw pool (min 5 (length pool)) g))"

fun rng_after :: "'a list \<Rightarrow> nat \<Rightarrow> rng \<Rightarrow> rng" where
  "rng_after pool 0 g = g"
| "rng_after pool (Suc n) g = rng_after pool n (snd (draw pool (min 5 (length pool)) g))"

text \<open>The text of one day: its title, a line for each exercise, the cool-down line.\<close>

definition day_section :: "string \<Rightarrow> int \<Rightarrow> string list \<Rightarrow> string" where
  "day_section goal day sel =
     ''Day '' @ str day @ '':'' @ [newline] @ concat (map (exercise_line goal) sel) @ cool_down"

definition days_text :: "string \<Rightarrow> int list \<Rightarrow> string list list \<Rightarrow> string" where
  "days_text goal days sels = concat (map2 (day_section goal) days sels)"

text \<open>
  The specification's pool: the catalog column of the request (the body-weight catalog
  when the flag is set, else the column of the equipment), concatenated over the tiers
  from beginner up to and including the requested one, in tier order.
\<close>

definition tier_order :: "string list" where
  "tier_order = [''beginner'', ''intermediate'', ''advanced'']"

definition tiers_upto :: "string \<Rightarrow> string list" where
  "tiers_upto level = take (Suc (length (takeWhile (\<lambda>t. t \<noteq> level) tier_order))) tier_order"

definition catalog_column :: "string \<Rightarrow> bool \<Rightarrow> string \<Rightarrow> string list" where
  "catalog_column equipment body_weight_only level =
     (if body_weight_only
      then (case body_weight_exercises level of None \<Rightarrow> [] | Some xs \<Rightarrow> xs)
      else (case exercises level of
              None \<Rightarrow> []
            | Some row \<Rightarrow> (case row equipment of None \<Rightarrow> [] | Some xs \<Rightarrow> xs)))"

definition cumulative_pool :: "string \<Rightarrow> string \<Rightarrow> bool \<Rightarrow> string list" where
  "cumulative_pool level equipment body_weight_only =
     concat (map (catalog_column equipment body_weight_only) (tiers_upto level))"



text \<open>The text of a result, without the random source.\<close>

definition text_of :: "exn + (string \<times> rng) \<Rightarrow> exn + string" where
  "text_of r = (case r of Inl e \<Rightarrow> Inl e | Inr p \<Rightarrow> Inr (fst p))"

text \<open>Two random sources for the examples: one that always draws 0, one that draws 9 first and 4 from then on.\<close>

definition always_first :: rng where
  "always_first i = 0"

definition nine_then_four :: rng where
  "nine_then_four i = (if i = 0 then 9 else 4)"

text \<open>The position in a pool of the entry at position \<open>i\<close> once position \<open>j\<close> is taken out.\<close>

definition skip :: "nat \<Rightarrow> nat \<Rightarrow> nat" where
  "skip j i = (if i < j then i else Suc i)"

section \<open>Strings and the inner loop\<close>


lemma exercise_lines_concat:
  "exercise_lines goal xs workout_plan = workout_plan @ concat (map (exercise_line goal) xs)"
  by (induction xs arbitrary: workout_plan) auto

section \<open>Drawing without replacement\<close>

lemma draw_Suc:
  "draw pool (Suc k) g =
     (pool ! (g 0 mod length pool)
        # fst (draw (take (g 0 mod length pool) pool @ drop (Suc (g 0 mod length pool)) pool) k
                 (\<lambda>i. g (Suc i))),
      snd (draw (take (g 0 mod length pool) pool @ drop (Suc (g 0 mod length pool)) pool) k
             (\<lambda>i. g (Suc i))))"
  by (simp add: randbelow_def split: prod.splits)

lemma length_draw: "length (fst (draw pool k g)) = k"
  by (induction k arbitrary: pool g) (simp_all add: draw_Suc del: draw.simps(2))

lemma draw_positions:
  "k \<le> length pool \<Longrightarrow>
   \<exists>idxs. fst (draw pool k g) = map (nth pool) idxs \<and> distinct idxs
     \<and> (\<forall>i \<in> set idxs. i < length pool) \<and> length idxs = k"
proof (induction k arbitrary: pool g)
  case 0
  then show ?case by simp
next
  case (Suc k)
  define j where "j = g 0 mod length pool"
  define pool' where "pool' = take j pool @ drop (Suc j) pool"
  define g' where "g' = (\<lambda>i. g (Suc i))"
  from Suc.prems have pos: "0 < length pool" by (cases pool) simp_all
  then have j: "j < length pool" by (simp add: j_def)
  then have len': "length pool' = length pool - 1" by (simp add: pool'_def)
  with Suc.prems have "k \<le> length pool'" by simp
  from Suc.IH [OF this, of g'] obtain idxs where
    d: "fst (draw pool' k g') = map (nth pool') idxs" and dist: "distinct idxs"
    and bound: "\<forall>i \<in> set idxs. i < length pool'" and len: "length idxs = k"
    by blast
  have nth': "pool' ! i = pool ! skip j i" if "i < length pool'" for i
    using that j by (auto simp: pool'_def skip_def nth_append min_def)
  have inj: "inj (skip j)" by (auto simp: inj_def skip_def split: if_splits)
  have "fst (draw pool (Suc k) g) = pool ! j # fst (draw pool' k g')"
    by (simp add: draw_Suc j_def pool'_def g'_def del: draw.simps(2))
  also have "\<dots> = map (nth pool) (j # map (skip j) idxs)"
    using d bound nth' by simp
  finally have "fst (draw pool (Suc k) g) = map (nth pool) (j # map (skip j) idxs)" .
  moreover have "distinct (j # map (skip j) idxs)"
  proof -
    have "j \<noteq> skip j i" for i by (simp add: skip_def)
    then have "j \<notin> set (map (skip j) idxs)" by (simp add: image_iff)
    moreover have "distinct (map (skip j) idxs)"
      using dist inj by (simp add: distinct_map inj_on_def inj_def)
    ultimately show ?thesis by simp
  qed
  moreover have "\<forall>i \<in> set (j # map (skip j) idxs). i < length pool"
  proof -
    have "skip j i < length pool" if "i < length pool'" for i
      using that len' by (auto simp: skip_def)
    with bound j show ?thesis by auto
  qed
  moreover have "length (j # map (skip j) idxs) = Suc k" using len by simp
  ultimately show ?case by blast
qed


lemma draw_subset:
  assumes "k \<le> length pool"
  shows "set (fst (draw pool k g)) \<subseteq> set pool"
proof -
  from draw_positions [OF assms, of g] obtain idxs where
    "fst (draw pool k g) = map (nth pool) idxs" and "\<forall>i \<in> set idxs. i < length pool"
    by blast
  then show ?thesis by auto
qed

lemma draw_distinct:
  assumes "k \<le> length pool" and "distinct pool"
  shows "distinct (fst (draw pool k g))"
proof -
  from draw_positions [OF assms(1), of g] obtain idxs where
    sel: "fst (draw pool k g) = map (nth pool) idxs" and dist: "distinct idxs"
    and bound: "\<forall>i \<in> set idxs. i < length pool"
    by blast
  have "inj_on (nth pool) (set idxs)"
    using bound assms(2) by (auto simp: inj_on_def nth_eq_iff_index_eq)
  with dist sel show ?thesis by (simp add: distinct_map)
qed

text \<open>Every choice of pairwise distinct positions is the outcome of some random source.\<close>

lemma draw_complete:
  assumes "distinct idxs" and "\<forall>i \<in> set idxs. i < length pool"
  shows "\<exists>g. fst (draw pool (length idxs) g) = map (nth pool) idxs"
  using assms
proof (induction "length idxs" arbitrary: idxs pool)
  case 0
  then show ?case by simp
next
  case (Suc n)
  then obtain j rest where idxs: "idxs = j # rest" and n: "n = length rest"
    by (cases idxs) simp_all
  define pool' where "pool' = take j pool @ drop (Suc j) pool"
  define shift where "shift = (\<lambda>i. if i < j then i else i - 1)"
  from Suc.prems idxs have j: "j < length pool" and notin: "j \<notin> set rest"
    and dist: "distinct rest" and bound: "\<forall>i \<in> set rest. i < length pool"
    by simp_all
  from j have len': "length pool' = length pool - 1" by (simp add: pool'_def)
  have nth': "pool' ! shift i = pool ! i" if "i \<in> set rest" for i
  proof -
    from that notin have "i \<noteq> j" by blast
    moreover from that bound have "i < length pool" by blast
    ultimately show ?thesis
      using j by (auto simp: pool'_def shift_def nth_append min_def)
  qed
  have "inj_on shift (set rest)"
  proof (rule inj_onI)
    fix x y assume x: "x \<in> set rest" and y: "y \<in> set rest" and eq: "shift x = shift y"
    from x y notin have "x \<noteq> j" "y \<noteq> j" by blast+
    with eq show "x = y" unfolding shift_def by (simp split: if_splits)
  qed
  with dist have d': "distinct (map shift rest)" by (simp add: distinct_map)
  have b': "\<forall>i \<in> set (map shift rest). i < length pool'"
  proof -
    have "shift i < length pool'" if "i \<in> set rest" for i
    proof -
      from that notin have "i \<noteq> j" by blast
      moreover from that bound have "i < length pool" by blast
      ultimately show ?thesis using j len' unfolding shift_def by (auto split: if_splits)
    qed
    then show ?thesis by simp
  qed
  from n have "n = length (map shift rest)" by simp
  from Suc.hyps(1) [OF this d' b'] obtain g' where
    g': "fst (draw pool' (length rest) g') = map (nth pool') (map shift rest)"
    by auto
  have same: "map (nth pool') (map shift rest) = map (nth pool) rest"
  proof -
    from nth' have "\<forall>i \<in> set rest. pool' ! shift i = pool ! i" by blast
    then show ?thesis by simp
  qed
  from g' same have g'': "fst (draw pool' (length rest) g') = map (nth pool) rest"
    by (rule trans)
  define g where "g = (\<lambda>n. case n of 0 \<Rightarrow> j | Suc m \<Rightarrow> g' m)"
  have g0: "g 0 mod length pool = j" using j by (simp add: g_def)
  have gs: "(\<lambda>i. g (Suc i)) = g'" by (simp add: g_def)
  have "fst (draw pool (length (j # rest)) g) = map (nth pool) (j # rest)"
    by (simp add: draw_Suc g0 gs g'' pool'_def [symmetric] del: draw.simps(2))
  then have final: "fst (draw pool (length idxs) g) = map (nth pool) idxs"
    by (simp only: idxs)
  show ?case by (rule exI [where x = g]) (rule final)
qed

section \<open>The loop over the days\<close>

lemma length_day_selections: "length (day_selections pool n g) = n"
  by (induction n arbitrary: g) simp_all

lemma day_selections_draw:
  "sel \<in> set (day_selections pool n g) \<Longrightarrow> \<exists>g'. sel = fst (draw pool (min 5 (length pool)) g')"
  by (induction n arbitrary: g) auto

lemma sample_min:
  "sample pool (min 5 (length pool)) g = Inr (draw pool (min 5 (length pool)) g)"
  by (simp add: sample_def)

lemma days_loop_shape:
  "days_loop goal pool days workout_plan g =
     Inr (workout_plan @ days_text goal days (day_selections pool (length days) g),
          rng_after pool (length days) g)"
proof (induction days arbitrary: workout_plan g)
  case Nil
  then show ?case by (simp add: days_text_def)
next
  case (Cons day days)
  obtain sel g' where dr: "draw pool (min 5 (length pool)) g = (sel, g')"
    by (cases "draw pool (min 5 (length pool)) g")
  have "days_loop goal pool (day # days) workout_plan g =
          days_loop goal pool days (workout_plan @ day_section goal day sel) g'"
    by (simp add: sample_min dr exercise_lines_concat day_section_def)
  also have "\<dots> = Inr (workout_plan @ day_section goal day sel
                        @ days_text goal days (day_selections pool (length days) g'),
                      rng_after pool (length days) g')"
    by (simp add: Cons.IH)
  finally show ?case by (simp add: dr days_text_def)
qed

section \<open>The pool and the shape of a plan\<close>

lemma exercises_dom:
  "exercises level \<noteq> None \<longleftrightarrow> level = ''beginner'' \<or> level = ''intermediate'' \<or> level = ''advanced''"
  by (simp add: exercises_def)

lemma valid_request_iff:
  "valid_request fitness_level days_per_week equipment \<longleftrightarrow>
     (fitness_level = ''beginner'' \<or> fitness_level = ''intermediate'' \<or> fitness_level = ''advanced'')
     \<and> 1 \<le> days_per_week \<and> days_per_week \<le> 7
     \<and> (equipment = ''full gym'' \<or> equipment = ''basic dumbbells'' \<or> equipment = ''no equipment'')"
  unfolding valid_request_def exercises_dom by auto

lemma tiers_upto_simps:
  "tiers_upto ''beginner'' = [''beginner'']"
  "tiers_upto ''intermediate'' = [''beginner'', ''intermediate'']"
  "tiers_upto ''advanced'' = [''beginner'', ''intermediate'', ''advanced'']"
  by code_simp+

lemma body_weight_items:
  "getitem body_weight_exercises ''beginner'' = Inr (catalog_column equipment True ''beginner'')"
  "getitem body_weight_exercises ''intermediate'' = Inr (catalog_column equipment True ''intermediate'')"
  "getitem body_weight_exercises ''advanced'' = Inr (catalog_column equipment True ''advanced'')"
  by (simp_all add: catalog_column_def body_weight_exercises_def getitem_def)

lemma body_weight_pool:
  assumes "level = ''beginner'' \<or> level = ''intermediate'' \<or> level = ''advanced''"
  shows "exercise_pool level equipment True = Inr (cumulative_pool level equipment True)"
proof -
  note items = body_weight_items [of equipment]
  from assms consider "level = ''beginner''" | "level = ''intermediate''" | "level = ''advanced''"
    by blast
  then show ?thesis
  proof cases
    case 1
    then show ?thesis
      by (simp add: exercise_pool_def cumulative_pool_def tiers_upto_simps items)
  next
    case 2
    then show ?thesis
      by (simp add: exercise_pool_def cumulative_pool_def tiers_upto_simps items and_then_def)
  next
    case 3
    then show ?thesis
      by (simp add: exercise_pool_def cumulative_pool_def tiers_upto_simps items and_then_def)
  qed
qed

lemma cell_values:
  "cell ''beginner'' ''full gym'' = Inr (catalog_column ''full gym'' False ''beginner'')"
  "cell ''beginner'' ''basic dumbbells'' = Inr (catalog_column ''basic dumbbells'' False ''beginner'')"
  "cell ''beginner'' ''no equipment'' = Inr (catalog_column ''no equipment'' False ''beginner'')"
  "cell ''intermediate'' ''full gym'' = Inr (catalog_column ''full gym'' False ''intermediate'')"
  "cell ''intermediate'' ''basic dumbbells'' = Inr (catalog_column ''basic dumbbells'' False ''intermediate'')"
  "cell ''intermediate'' ''no equipment'' = Inr (catalog_column ''no equipment'' False ''intermediate'')"
  "cell ''advanced'' ''full gym'' = Inr (catalog_column ''full gym'' False ''advanced'')"
  "cell ''advanced'' ''basic dumbbells'' = Inr (catalog_column ''basic dumbbells'' False ''advanced'')"
  "cell ''advanced'' ''no equipment'' = Inr (catalog_column ''no equipment'' False ''advanced'')"
  by code_simp+

lemma equipment_pool:
  assumes "level = ''beginner'' \<or> level = ''intermediate'' \<or> level = ''advanced''"
    and "equipment = ''full gym'' \<or> equipment = ''basic dumbbells'' \<or> equipment = ''no equipment''"
  shows "exercise_pool level equipment False = Inr (cumulative_pool level equipment False)"
proof -
  have c: "cell ''beginner'' equipment = Inr (catalog_column equipment False ''beginner'')"
    "cell ''intermediate'' equipment = Inr (catalog_column equipment False ''intermediate'')"
    "cell ''advanced'' equipment = Inr (catalog_column equipment False ''advanced'')"
    using assms(2) cell_values by blast+
  from assms(1) consider "level = ''beginner''" | "level = ''intermediate''" | "level = ''advanced''"
    by blast
  then show ?thesis
  proof cases
    case 1
    then show ?thesis
      by (simp add: exercise_pool_def cumulative_pool_def tiers_upto_simps c)
  next
    case 2
    then show ?thesis
      by (simp add: exercise_pool_def cumulative_pool_def tiers_upto_simps c and_then_def)
  next
    case 3
    then show ?thesis
      by (simp add: exercise_pool_def cumulative_pool_def tiers_upto_simps c and_then_def)
  qed
qed

lemma pool_cumulative:
  assumes "valid_request fitness_level days_per_week equipment"
  shows "exercise_pool fitness_level equipment body_weight_only =
           Inr (cumulative_pool fitness_level equipment body_weight_only)"
  using assms body_weight_pool equipment_pool
  by (cases body_weight_only) (simp_all add: valid_request_iff)

lemma plan_shape:
  assumes "valid_request fitness_level days_per_week equipment"
    and "exercise_pool fitness_level equipment body_weight_only = Inr pool"
  shows "create_workout_plan fitness_level goal days_per_week equipment body_weight_only duration g =
           Inr (header fitness_level goal days_per_week equipment body_weight_only
                  @ days_text goal [1 .. days_per_week] (day_selections pool (nat days_per_week) g)
                  @ advisory duration,
                rng_after pool (nat days_per_week) g)"
proof -
  from assms(1) obtain row where row: "exercises fitness_level = Some row"
    by (auto simp: valid_request_def)
  from assms(1) have v: "\<not> (days_per_week < 1 \<or> days_per_week > 7)"
    "equipment \<in> set [''full gym'', ''basic dumbbells'', ''no equipment'']"
    by (simp_all add: valid_request_def)
  from v(1) have len: "length [1 .. days_per_week] = nat days_per_week" by simp
  show ?thesis
    unfolding create_workout_plan_def using v
    by (simp add: row assms(2) and_then_def days_loop_shape len del: length_upto)
qed



section \<open>Sizes of the catalogs and of the pools\<close>

lemma body_weight_sizes:
  "body_weight_exercises level = Some xs \<Longrightarrow> length xs = 7"
  by (auto simp: body_weight_exercises_def split: if_splits)

lemma exercises_rows:
  "exercises level = Some row \<Longrightarrow>
     row = the (exercises ''beginner'') \<or> row = the (exercises ''intermediate'')
       \<or> row = the (exercises ''advanced'')"
  by (auto simp: exercises_def split: if_splits)

lemma beginner_row_sizes: "the (exercises ''beginner'') e = Some xs \<Longrightarrow> length xs = 5"
  by (auto simp: exercises_def split: if_splits)

lemma intermediate_row_sizes: "the (exercises ''intermediate'') e = Some xs \<Longrightarrow> length xs = 5"
  by (auto simp: exercises_def split: if_splits)

lemma advanced_row_sizes: "the (exercises ''advanced'') e = Some xs \<Longrightarrow> length xs = 5"
  by (auto simp: exercises_def split: if_splits)

lemma cell_sizes:
  assumes "exercises level = Some row" and "row e = Some xs"
  shows "length xs = 5"
  using exercises_rows [OF assms(1)] assms(2)
    beginner_row_sizes intermediate_row_sizes advanced_row_sizes
  by blast

lemma column_length:
  assumes "level = ''beginner'' \<or> level = ''intermediate'' \<or> level = ''advanced''"
    and "body_weight_only \<or> equipment = ''full gym'' \<or> equipment = ''basic dumbbells''
         \<or> equipment = ''no equipment''"
  shows "length (catalog_column equipment body_weight_only level) = (if body_weight_only then 7 else 5)"
proof (cases body_weight_only)
  case True
  from assms(1) obtain xs where "body_weight_exercises level = Some xs"
    by (auto simp: body_weight_exercises_def)
  with True body_weight_sizes [OF this] show ?thesis by (simp add: catalog_column_def)
next
  case False
  with assms have "cell level equipment = Inr (catalog_column equipment False level)"
    using cell_values by blast
  then obtain row where row: "exercises level = Some row"
    and xs: "row equipment = Some (catalog_column equipment False level)"
    by (auto simp: cell_def getitem_def and_then_def split: option.splits)
  from cell_sizes [OF row xs] False show ?thesis by simp
qed

lemma pool_length:
  assumes "valid_request fitness_level days_per_week equipment"
  shows "length (cumulative_pool fitness_level equipment body_weight_only)
           = (if body_weight_only then 7 else 5) * length (tiers_upto fitness_level)"
proof -
  from assms have e: "body_weight_only \<or> equipment = ''full gym''
      \<or> equipment = ''basic dumbbells'' \<or> equipment = ''no equipment''"
    by (simp add: valid_request_iff)
  have c: "length (catalog_column equipment body_weight_only ''beginner'') = (if body_weight_only then 7 else 5)"
    "length (catalog_column equipment body_weight_only ''intermediate'') = (if body_weight_only then 7 else 5)"
    "length (catalog_column equipment body_weight_only ''advanced'') = (if body_weight_only then 7 else 5)"
    using e by (simp_all add: column_length)
  from assms consider "fitness_level = ''beginner''" | "fitness_level = ''intermediate''"
    | "fitness_level = ''advanced''"
    unfolding valid_request_iff by blast
  then show ?thesis
    by cases (simp_all add: cumulative_pool_def tiers_upto_simps c)
qed

lemma tiers_upto_length:
  "1 \<le> length (tiers_upto level) \<and> length (tiers_upto level) \<le> 3"
  by (simp add: tiers_upto_def tier_order_def)


lemma pool_at_most_21:
  assumes "valid_request fitness_level days_per_week equipment"
  shows "length (cumulative_pool fitness_level equipment body_weight_only) \<le> 21"
  using pool_length [OF assms, of body_weight_only] tiers_upto_length [of fitness_level]
  by (cases body_weight_only) simp_all

lemma selection_length:
  assumes "sel \<in> set (day_selections pool n g)"
  shows "length sel = min 5 (length pool)"
  using day_selections_draw [OF assms] length_draw by fastforce

section \<open>Selections and repeated names\<close>

lemma selection_positions:
  assumes "sel \<in> set (day_selections pool n g)"
  shows "\<exists>idxs. sel = map (nth pool) idxs \<and> distinct idxs \<and> (\<forall>i \<in> set idxs. i < length pool)"
proof -
  from day_selections_draw [OF assms] obtain g' where
    sel: "sel = fst (draw pool (min 5 (length pool)) g')" by blast
  have "min 5 (length pool) \<le> length pool" by simp
  from draw_positions [OF this, of g'] sel show ?thesis by auto
qed

lemma selection_distinct:
  assumes "sel \<in> set (day_selections pool n g)" and "distinct pool"
  shows "distinct sel"
proof -
  from day_selections_draw [OF assms(1)] obtain g' where
    sel: "sel = fst (draw pool (min 5 (length pool)) g')" by blast
  have "min 5 (length pool) \<le> length pool" by simp
  from draw_distinct [OF this assms(2), of g'] sel show ?thesis by simp
qed

lemma selection_subset:
  assumes "sel \<in> set (day_selections pool n g)"
  shows "set sel \<subseteq> set pool"
proof -
  from day_selections_draw [OF assms(1)] obtain g' where
    sel: "sel = fst (draw pool (min 5 (length pool)) g')" by blast
  have "min 5 (length pool) \<le> length pool" by simp
  from draw_subset [OF this, of g'] sel show ?thesis by simp
qed

lemma body_weight_pool_any_equipment:
  "cumulative_pool level equipment True = cumulative_pool level ''full gym'' True"
proof -
  have "catalog_column equipment True = catalog_column ''full gym'' True"
    by (rule ext) (simp add: catalog_column_def)
  then show ?thesis by (simp add: cumulative_pool_def)
qed

lemma distinct_body_weight_pools:
  "distinct (cumulative_pool ''beginner'' ''full gym'' True)"
  "distinct (cumulative_pool ''intermediate'' ''full gym'' True)"
  "distinct (cumulative_pool ''advanced'' ''full gym'' True)"
  by code_simp+

lemma distinct_full_gym_pools:
  "distinct (cumulative_pool ''beginner'' ''full gym'' False)"
  "distinct (cumulative_pool ''intermediate'' ''full gym'' False)"
  "distinct (cumulative_pool ''advanced'' ''full gym'' False)"
  by code_simp+

lemma distinct_beginner_pools:
  "distinct (cumulative_pool ''beginner'' ''basic dumbbells'' False)"
  "distinct (cumulative_pool ''beginner'' ''no equipment'' False)"
  by code_simp+

lemma distinct_pools:
  assumes "valid_request fitness_level days_per_week equipment"
    and "body_weight_only \<or> equipment = ''full gym'' \<or> fitness_level = ''beginner''"
  shows "distinct (cumulative_pool fitness_level equipment body_weight_only)"
proof -
  from assms(1) have l: "fitness_level = ''beginner'' \<or> fitness_level = ''intermediate''
      \<or> fitness_level = ''advanced''"
    and e: "equipment = ''full gym'' \<or> equipment = ''basic dumbbells''
      \<or> equipment = ''no equipment''"
    by (simp_all add: valid_request_iff)
  show ?thesis
  proof (cases body_weight_only)
    case True
    have "distinct (cumulative_pool fitness_level ''full gym'' True)"
      using l distinct_body_weight_pools by blast
    with True show ?thesis by (simp add: body_weight_pool_any_equipment [of _ equipment])
  next
    case False
    with assms(2) consider "equipment = ''full gym''" | "fitness_level = ''beginner''" by blast
    then show ?thesis
    proof cases
      case 1
      have "distinct (cumulative_pool fitness_level ''full gym'' False)"
        using l distinct_full_gym_pools by blast
      with False 1 show ?thesis by simp
    next
      case 2
      have "distinct (cumulative_pool ''beginner'' equipment False)"
        using e distinct_full_gym_pools(1) distinct_beginner_pools by blast
      with False 2 show ?thesis by simp
    qed
  qed
qed

section \<open>The test on the goal\<close>






section \<open>The day sections hold no capital A\<close>












lemma three_elements:
  "length xs = Suc (Suc (Suc 0)) \<Longrightarrow> \<exists>a b c. xs = [a, b, c]"
  by (auto simp: length_Suc_conv)

lemma advisory_zero: "advisory (Some 0) = advisory None"
  by (simp add: advisory_def)

section \<open>The claims\<close>

text \<open>
  Claim C1, as stated: for every valid request the names drawn for a day are pairwise
  distinct as strings. It fails: the intermediate pool for no equipment holds
  ``Mountain climbers'' twice, at position 4 from the beginner tier and at position 9
  from the intermediate tier, and a draw that takes both positions lists the name twice
  on the same day.
\<close>

theorem distinct_names_counterexample:
  "valid_request ''intermediate'' 1 ''no equipment''
   \<and> \<not> isl (exercise_pool ''intermediate'' ''no equipment'' False)
   \<and> day_selections (projr (exercise_pool ''intermediate'' ''no equipment'' False)) (nat 1)
         nine_then_four
       = [[''Mountain climbers'', ''Mountain climbers'', ''Jump squats'', ''Diamond push-ups'',
           ''Burpees'']]
   \<and> \<not> distinct (hd (day_selections (projr (exercise_pool ''intermediate'' ''no equipment'' False))
                         (nat 1) nine_then_four))
   \<and> text_of (create_workout_plan ''intermediate'' ''endurance'' 1 ''no equipment'' False None
                 nine_then_four)
       = Inr ''Workout Plan (intermediate level, endurance focus, 1 days/week, no equipment):\<newline>\<newline>Day 1:\<newline>- Mountain climbers: 3 sets of 30-60 seconds\<newline>- Mountain climbers: 3 sets of 30-60 seconds\<newline>- Jump squats: 3 sets of 30-60 seconds\<newline>- Diamond push-ups: 3 sets of 30-60 seconds\<newline>- Burpees: 3 sets of 30-60 seconds\<newline>- Cool-down: 5-10 minutes of light stretching\<newline>\<newline>''"
proof -
  let ?pool = "[''Bodyweight squats'', ''Push-ups'', ''Walking lunges'', ''Plank'',
      ''Mountain climbers'', ''Jump squats'', ''Diamond push-ups'', ''Burpees'',
      ''Superman holds'', ''Mountain climbers'']"
  have v: "valid_request ''intermediate'' 1 ''no equipment''"
    by (simp add: valid_request_iff)
  have p: "exercise_pool ''intermediate'' ''no equipment'' False = Inr ?pool"
    by code_simp
  have s: "day_selections ?pool (nat 1) nine_then_four
       = [[''Mountain climbers'', ''Mountain climbers'', ''Jump squats'', ''Diamond push-ups'',
           ''Burpees'']]"
    by code_simp
  have t: "text_of (create_workout_plan ''intermediate'' ''endurance'' 1 ''no equipment'' False None
                 nine_then_four)
       = Inr ''Workout Plan (intermediate level, endurance focus, 1 days/week, no equipment):\<newline>\<newline>Day 1:\<newline>- Mountain climbers: 3 sets of 30-60 seconds\<newline>- Mountain climbers: 3 sets of 30-60 seconds\<newline>- Jump squats: 3 sets of 30-60 seconds\<newline>- Diamond push-ups: 3 sets of 30-60 seconds\<newline>- Burpees: 3 sets of 30-60 seconds\<newline>- Cool-down: 5-10 minutes of light stretching\<newline>\<newline>''"
    by code_simp
  show ?thesis
    unfolding p sum.sel s by (simp add: v t)
qed

text \<open>
  Claim C1, amended: for every valid request the k = min(5, pool size) entries drawn for
  a day come from pairwise distinct positions of the pool (sampling without
  replacement), so their names are pairwise distinct whenever the pool holds no name
  twice, which is the case for every request with the body-weight flag set, with the
  full gym, or with the beginner tier.
\<close>

theorem distinct_positions_each_day:
  assumes "valid_request fitness_level days_per_week equipment"
  shows "\<exists>pool. exercise_pool fitness_level equipment body_weight_only = Inr pool
           \<and> create_workout_plan fitness_level goal days_per_week equipment body_weight_only
                 duration g
               = Inr (header fitness_level goal days_per_week equipment body_weight_only
                        @ concat (map2 (day_section goal) [1 .. days_per_week]
                                    (day_selections pool (nat days_per_week) g))
                        @ advisory duration,
                      rng_after pool (nat days_per_week) g)
           \<and> (\<forall>sel \<in> set (day_selections pool (nat days_per_week) g).
                 length sel = min 5 (length pool)
                 \<and> (\<exists>idxs. sel = map (nth pool) idxs \<and> distinct idxs
                            \<and> (\<forall>i \<in> set idxs. i < length pool))
                 \<and> (distinct pool \<longrightarrow> distinct sel))
           \<and> (body_weight_only \<or> equipment = ''full gym'' \<or> fitness_level = ''beginner''
                 \<longrightarrow> distinct pool)"
proof -
  let ?pool = "cumulative_pool fitness_level equipment body_weight_only"
  let ?sels = "day_selections ?pool (nat days_per_week) g"
  have pool: "exercise_pool fitness_level equipment body_weight_only = Inr ?pool"
    by (rule pool_cumulative [OF assms])
  have shape: "create_workout_plan fitness_level goal days_per_week equipment body_weight_only
                 duration g
               = Inr (header fitness_level goal days_per_week equipment body_weight_only
                        @ concat (map2 (day_section goal) [1 .. days_per_week] ?sels)
                        @ advisory duration,
                      rng_after ?pool (nat days_per_week) g)"
    using plan_shape [OF assms pool] by (simp only: days_text_def)
  have each: "\<forall>sel \<in> set ?sels.
                 length sel = min 5 (length ?pool)
                 \<and> (\<exists>idxs. sel = map (nth ?pool) idxs \<and> distinct idxs
                            \<and> (\<forall>i \<in> set idxs. i < length ?pool))
                 \<and> (distinct ?pool \<longrightarrow> distinct sel)"
  proof (intro ballI conjI impI)
    fix sel assume sel: "sel \<in> set ?sels"
    show "length sel = min 5 (length ?pool)" by (rule selection_length [OF sel])
    show "\<exists>idxs. sel = map (nth ?pool) idxs \<and> distinct idxs \<and> (\<forall>i \<in> set idxs. i < length ?pool)"
      by (rule selection_positions [OF sel])
    assume "distinct ?pool"
    then show "distinct sel" by (rule selection_distinct [OF sel])
  qed
  have dist: "body_weight_only \<or> equipment = ''full gym'' \<or> fitness_level = ''beginner''
                 \<longrightarrow> distinct ?pool"
    using distinct_pools [OF assms] by (rule impI)
  from pool shape each dist show ?thesis by (intro exI conjI)
qed

theorem distinct_positions_each_day_witness:
  "valid_request ''advanced'' 2 ''full gym''
   \<and> (\<exists>pool. exercise_pool ''advanced'' ''full gym'' False = Inr pool
         \<and> (\<forall>sel \<in> set (day_selections pool (nat 2) always_first).
               length sel = min 5 (length pool) \<and> distinct sel))"
proof -
  have v: "valid_request ''advanced'' 2 ''full gym''"
    by (simp add: valid_request_iff)
  from distinct_positions_each_day [OF v, of False "''endurance''" None always_first]
  obtain pool where pool: "exercise_pool ''advanced'' ''full gym'' False = Inr pool"
    and each: "\<forall>sel \<in> set (day_selections pool (nat 2) always_first).
                 length sel = min 5 (length pool)
                 \<and> (\<exists>idxs. sel = map (nth pool) idxs \<and> distinct idxs
                            \<and> (\<forall>i \<in> set idxs. i < length pool))
                 \<and> (distinct pool \<longrightarrow> distinct sel)"
    and dist: "False \<or> ''full gym'' = ''full gym'' \<or> ''advanced'' = ''beginner'' \<longrightarrow> distinct pool"
    by (elim exE conjE)
  from dist have "distinct pool" by simp
  with each have "\<forall>sel \<in> set (day_selections pool (nat 2) always_first).
               length sel = min 5 (length pool) \<and> distinct sel"
    by blast
  with v pool show ?thesis by (intro conjI exI)
qed

text \<open>
  Claim C2. For every valid request the pool built by lines 110 to 123 is the
  concatenation of the catalog column of the request (the body-weight catalog when the
  flag is set, else the column of the requested equipment) over the tiers from beginner
  up to and including the requested one, in the order beginner, intermediate, advanced,
  each tier's entries in catalog order and nothing removed. So the beginner pool is a
  prefix, hence a sub-multiset, of the intermediate pool, which is one of the advanced
  pool, and the pool size does not decrease with the tier.
\<close>

theorem pool_is_cumulative:
  assumes "valid_request fitness_level days_per_week equipment"
  shows "exercise_pool fitness_level equipment body_weight_only
           = Inr (concat (map (catalog_column equipment body_weight_only) (tiers_upto fitness_level)))
         \<and> tiers_upto ''beginner'' = [''beginner'']
         \<and> tiers_upto ''intermediate'' = [''beginner'', ''intermediate'']
         \<and> tiers_upto ''advanced'' = [''beginner'', ''intermediate'', ''advanced'']
         \<and> (\<exists>b i a. exercise_pool ''beginner'' equipment body_weight_only = Inr b
               \<and> exercise_pool ''intermediate'' equipment body_weight_only = Inr i
               \<and> exercise_pool ''advanced'' equipment body_weight_only = Inr a
               \<and> prefix b i \<and> prefix i a
               \<and> mset b \<subseteq># mset i \<and> mset i \<subseteq># mset a
               \<and> length b \<le> length i \<and> length i \<le> length a)"
proof -
  let ?col = "catalog_column equipment body_weight_only"
  from assms have e: "equipment = ''full gym'' \<or> equipment = ''basic dumbbells''
      \<or> equipment = ''no equipment''"
    by (simp add: valid_request_iff)
  have v: "valid_request ''beginner'' 1 equipment" "valid_request ''intermediate'' 1 equipment"
    "valid_request ''advanced'' 1 equipment"
    using e by (simp_all add: valid_request_iff)
  have pb: "exercise_pool ''beginner'' equipment body_weight_only = Inr (?col ''beginner'')"
    using pool_cumulative [OF v(1), of body_weight_only]
    by (simp add: cumulative_pool_def tiers_upto_simps)
  have pi: "exercise_pool ''intermediate'' equipment body_weight_only
              = Inr (?col ''beginner'' @ ?col ''intermediate'')"
    using pool_cumulative [OF v(2), of body_weight_only]
    by (simp add: cumulative_pool_def tiers_upto_simps)
  have pa: "exercise_pool ''advanced'' equipment body_weight_only
              = Inr ((?col ''beginner'' @ ?col ''intermediate'') @ ?col ''advanced'')"
    using pool_cumulative [OF v(3), of body_weight_only]
    by (simp add: cumulative_pool_def tiers_upto_simps)
  have chain: "\<exists>b i a. exercise_pool ''beginner'' equipment body_weight_only = Inr b
               \<and> exercise_pool ''intermediate'' equipment body_weight_only = Inr i
               \<and> exercise_pool ''advanced'' equipment body_weight_only = Inr a
               \<and> prefix b i \<and> prefix i a
               \<and> mset b \<subseteq># mset i \<and> mset i \<subseteq># mset a
               \<and> length b \<le> length i \<and> length i \<le> length a"
  proof (intro exI conjI)
    show "exercise_pool ''beginner'' equipment body_weight_only = Inr (?col ''beginner'')"
      by (rule pb)
    show "exercise_pool ''intermediate'' equipment body_weight_only
            = Inr (?col ''beginner'' @ ?col ''intermediate'')"
      by (rule pi)
    show "exercise_pool ''advanced'' equipment body_weight_only
            = Inr ((?col ''beginner'' @ ?col ''intermediate'') @ ?col ''advanced'')"
      by (rule pa)
    show "prefix (?col ''beginner'') (?col ''beginner'' @ ?col ''intermediate'')"
      by (rule prefixI) (rule refl)
    show "prefix (?col ''beginner'' @ ?col ''intermediate'')
            ((?col ''beginner'' @ ?col ''intermediate'') @ ?col ''advanced'')"
      by (rule prefixI) (rule refl)
    show "mset (?col ''beginner'') \<subseteq># mset (?col ''beginner'' @ ?col ''intermediate'')"
      by simp
    show "mset (?col ''beginner'' @ ?col ''intermediate'')
            \<subseteq># mset ((?col ''beginner'' @ ?col ''intermediate'') @ ?col ''advanced'')"
      by (simp only: mset_append mset_subset_eq_add_left)
    show "length (?col ''beginner'') \<le> length (?col ''beginner'' @ ?col ''intermediate'')"
      by simp
    show "length (?col ''beginner'' @ ?col ''intermediate'')
            \<le> length ((?col ''beginner'' @ ?col ''intermediate'') @ ?col ''advanced'')"
      by (simp only: length_append le_add1)
  qed
  have main: "exercise_pool fitness_level equipment body_weight_only
           = Inr (concat (map ?col (tiers_upto fitness_level)))"
    using pool_cumulative [OF assms, of body_weight_only] by (simp add: cumulative_pool_def)
  show ?thesis
    by (rule conjI [OF main conjI [OF tiers_upto_simps(1) conjI [OF tiers_upto_simps(2)
          conjI [OF tiers_upto_simps(3) chain]]]])
qed

theorem pool_is_cumulative_witness:
  "valid_request ''intermediate'' 3 ''no equipment''
   \<and> exercise_pool ''intermediate'' ''no equipment'' False
       = Inr (concat (map (catalog_column ''no equipment'' False) [''beginner'', ''intermediate'']))
   \<and> concat (map (catalog_column ''no equipment'' False) [''beginner'', ''intermediate''])
       = [''Bodyweight squats'', ''Push-ups'', ''Walking lunges'', ''Plank'', ''Mountain climbers'',
          ''Jump squats'', ''Diamond push-ups'', ''Burpees'', ''Superman holds'',
          ''Mountain climbers'']"
proof -
  have v: "valid_request ''intermediate'' 3 ''no equipment''"
    by (simp add: valid_request_iff)
  have c: "concat (map (catalog_column ''no equipment'' False) [''beginner'', ''intermediate''])
       = [''Bodyweight squats'', ''Push-ups'', ''Walking lunges'', ''Plank'', ''Mountain climbers'',
          ''Jump squats'', ''Diamond push-ups'', ''Burpees'', ''Superman holds'',
          ''Mountain climbers'']"
    by code_simp
  from pool_is_cumulative [OF v, of False] have
    "exercise_pool ''intermediate'' ''no equipment'' False
       = Inr (concat (map (catalog_column ''no equipment'' False) (tiers_upto ''intermediate'')))
     \<and> tiers_upto ''intermediate'' = [''beginner'', ''intermediate'']"
    by (elim conjE, intro conjI)
  then have "exercise_pool ''intermediate'' ''no equipment'' False
       = Inr (concat (map (catalog_column ''no equipment'' False) [''beginner'', ''intermediate'']))"
    by (elim conjE) (erule subst)
  with v c show ?thesis by (intro conjI)
qed









text \<open>
  Claim C7. For the request with tier beginner, goal ``weight loss'', 3 days, no
  equipment and the body-weight flag off, whatever the random source draws: the plan is
  the header followed by exactly three day sections, for days 1, 2 and 3; every listed
  exercise is one of the five names of the beginner cell for no equipment; every
  exercise line ends with ``3 sets of 10-15 reps''; and every section ends with the
  cool-down line ``5-10 minutes of light stretching''.
\<close>

theorem beginner_weight_loss_example:
  "\<exists>s1 s2 s3 g'.
     create_workout_plan ''beginner'' ''weight loss'' 3 ''no equipment'' False duration g
       = Inr (''Workout Plan (beginner level, weight loss focus, 3 days/week, no equipment):\<newline>\<newline>''
                @ (''Day 1:\<newline>''
                     @ concat (map (\<lambda>exercise. ''- '' @ exercise @ '': 3 sets of 10-15 reps\<newline>'') s1)
                     @ ''- Cool-down: 5-10 minutes of light stretching\<newline>\<newline>'')
                @ (''Day 2:\<newline>''
                     @ concat (map (\<lambda>exercise. ''- '' @ exercise @ '': 3 sets of 10-15 reps\<newline>'') s2)
                     @ ''- Cool-down: 5-10 minutes of light stretching\<newline>\<newline>'')
                @ (''Day 3:\<newline>''
                     @ concat (map (\<lambda>exercise. ''- '' @ exercise @ '': 3 sets of 10-15 reps\<newline>'') s3)
                     @ ''- Cool-down: 5-10 minutes of light stretching\<newline>\<newline>'')
                @ advisory duration,
              g')
     \<and> cell ''beginner'' ''no equipment''
           = Inr [''Bodyweight squats'', ''Push-ups'', ''Walking lunges'', ''Plank'',
                  ''Mountain climbers'']
     \<and> (\<forall>sel \<in> {s1, s2, s3}.
           length sel = 5
           \<and> set sel \<subseteq> {''Bodyweight squats'', ''Push-ups'', ''Walking lunges'', ''Plank'',
                           ''Mountain climbers''})"
proof -
  let ?pool = "[''Bodyweight squats'', ''Push-ups'', ''Walking lunges'', ''Plank'',
                ''Mountain climbers'']"
  let ?line = "\<lambda>exercise. ''- '' @ exercise @ '': 3 sets of 10-15 reps\<newline>''"
  have v: "valid_request ''beginner'' 3 ''no equipment''"
    by (simp add: valid_request_iff)
  have c: "cell ''beginner'' ''no equipment'' = Inr ?pool" by code_simp
  have pool: "exercise_pool ''beginner'' ''no equipment'' False = Inr ?pool" by code_simp
  have "length (day_selections ?pool (nat 3) g) = nat 3"
    by (rule length_day_selections)
  also have "nat 3 = Suc (Suc (Suc 0))" by simp
  finally obtain s1 s2 s3 where sels: "day_selections ?pool (nat 3) g = [s1, s2, s3]"
    using three_elements by blast
  have h: "header ''beginner'' ''weight loss'' 3 ''no equipment'' False
             = ''Workout Plan (beginner level, weight loss focus, 3 days/week, no equipment):\<newline>\<newline>''"
    by code_simp
  have r: "reps ''weight loss'' = ''10-15 reps''" by code_simp
  have line: "exercise_line ''weight loss'' = ?line"
    by (intro ext) (simp add: exercise_line_def r newline_def)
  have n: "str 1 = ''1''" "str 2 = ''2''" "str 3 = ''3''" by code_simp+
  have sec: "day_section ''weight loss'' 1 sel
               = ''Day 1:\<newline>'' @ concat (map ?line sel)
                   @ ''- Cool-down: 5-10 minutes of light stretching\<newline>\<newline>''"
    "day_section ''weight loss'' 2 sel
               = ''Day 2:\<newline>'' @ concat (map ?line sel)
                   @ ''- Cool-down: 5-10 minutes of light stretching\<newline>\<newline>''"
    "day_section ''weight loss'' 3 sel
               = ''Day 3:\<newline>'' @ concat (map ?line sel)
                   @ ''- Cool-down: 5-10 minutes of light stretching\<newline>\<newline>''"
    for sel
    by (simp_all add: day_section_def line n cool_down_def newline_def)
  have u: "[1 .. 3 :: int] = [1, 2, 3]" by code_simp
  have days: "days_text ''weight loss'' [1 .. 3] [s1, s2, s3]
                = day_section ''weight loss'' 1 s1 @ day_section ''weight loss'' 2 s2
                    @ day_section ''weight loss'' 3 s3"
    by (simp add: days_text_def u)
  have shape: "create_workout_plan ''beginner'' ''weight loss'' 3 ''no equipment'' False duration g
       = Inr (''Workout Plan (beginner level, weight loss focus, 3 days/week, no equipment):\<newline>\<newline>''
                @ (''Day 1:\<newline>'' @ concat (map ?line s1)
                     @ ''- Cool-down: 5-10 minutes of light stretching\<newline>\<newline>'')
                @ (''Day 2:\<newline>'' @ concat (map ?line s2)
                     @ ''- Cool-down: 5-10 minutes of light stretching\<newline>\<newline>'')
                @ (''Day 3:\<newline>'' @ concat (map ?line s3)
                     @ ''- Cool-down: 5-10 minutes of light stretching\<newline>\<newline>'')
                @ advisory duration,
              rng_after ?pool (nat 3) g)"
    using plan_shape [OF v pool, of "''weight loss''" duration g]
    by (simp only: sels days h sec append_assoc)
  have each: "\<forall>sel \<in> {s1, s2, s3}.
           length sel = 5
           \<and> set sel \<subseteq> {''Bodyweight squats'', ''Push-ups'', ''Walking lunges'', ''Plank'',
                           ''Mountain climbers''}"
  proof
    fix sel assume "sel \<in> {s1, s2, s3}"
    then have m: "sel \<in> set (day_selections ?pool (nat 3) g)" by (simp only: sels) simp
    from selection_length [OF m] have "length sel = 5" by simp
    moreover from selection_subset [OF m]
    have "set sel \<subseteq> {''Bodyweight squats'', ''Push-ups'', ''Walking lunges'', ''Plank'',
                           ''Mountain climbers''}"
      by simp
    ultimately show "length sel = 5
           \<and> set sel \<subseteq> {''Bodyweight squats'', ''Push-ups'', ''Walking lunges'', ''Plank'',
                           ''Mountain climbers''}"
      by (rule conjI)
  qed
  from shape c each show ?thesis by (intro exI conjI)
qed

theorem beginner_weight_loss_example_witness:
  "text_of (create_workout_plan ''beginner'' ''weight loss'' 3 ''no equipment'' False None always_first)
     = Inr ''Workout Plan (beginner level, weight loss focus, 3 days/week, no equipment):\<newline>\<newline>Day 1:\<newline>- Bodyweight squats: 3 sets of 10-15 reps\<newline>- Push-ups: 3 sets of 10-15 reps\<newline>- Walking lunges: 3 sets of 10-15 reps\<newline>- Plank: 3 sets of 10-15 reps\<newline>- Mountain climbers: 3 sets of 10-15 reps\<newline>- Cool-down: 5-10 minutes of light stretching\<newline>\<newline>Day 2:\<newline>- Bodyweight squats: 3 sets of 10-15 reps\<newline>- Push-ups: 3 sets of 10-15 reps\<newline>- Walking lunges: 3 sets of 10-15 reps\<newline>- Plank: 3 sets of 10-15 reps\<newline>- Mountain climbers: 3 sets of 10-15 reps\<newline>- Cool-down: 5-10 minutes of light stretching\<newline>\<newline>Day 3:\<newline>- Bodyweight squats: 3 sets of 10-15 reps\<newline>- Push-ups: 3 sets of 10-15 reps\<newline>- Walking lunges: 3 sets of 10-15 reps\<newline>- Plank: 3 sets of 10-15 reps\<newline>- Mountain climbers: 3 sets of 10-15 reps\<newline>- Cool-down: 5-10 minutes of light stretching\<newline>\<newline>''
   \<and> (\<exists>s1 s2 s3 g'.
         create_workout_plan ''beginner'' ''weight loss'' 3 ''no equipment'' False None always_first
           = Inr (''Workout Plan (beginner level, weight loss focus, 3 days/week, no equipment):\<newline>\<newline>''
                @ (''Day 1:\<newline>''
                     @ concat (map (\<lambda>exercise. ''- '' @ exercise @ '': 3 sets of 10-15 reps\<newline>'') s1)
                     @ ''- Cool-down: 5-10 minutes of light stretching\<newline>\<newline>'')
                @ (''Day 2:\<newline>''
                     @ concat (map (\<lambda>exercise. ''- '' @ exercise @ '': 3 sets of 10-15 reps\<newline>'') s2)
                     @ ''- Cool-down: 5-10 minutes of light stretching\<newline>\<newline>'')
                @ (''Day 3:\<newline>''
                     @ concat (map (\<lambda>exercise. ''- '' @ exercise @ '': 3 sets of 10-15 reps\<newline>'') s3)
                     @ ''- Cool-down: 5-10 minutes of light stretching\<newline>\<newline>'')
                @ advisory None,
              g')
         \<and> (\<forall>sel \<in> {s1, s2, s3}.
               length sel = 5
               \<and> set sel \<subseteq> {''Bodyweight squats'', ''Push-ups'', ''Walking lunges'', ''Plank'',
                               ''Mountain climbers''}))"
proof -
  have t: "text_of (create_workout_plan ''beginner'' ''weight loss'' 3 ''no equipment'' False None always_first)
     = Inr ''Workout Plan (beginner level, weight loss focus, 3 days/week, no equipment):\<newline>\<newline>Day 1:\<newline>- Bodyweight squats: 3 sets of 10-15 reps\<newline>- Push-ups: 3 sets of 10-15 reps\<newline>- Walking lunges: 3 sets of 10-15 reps\<newline>- Plank: 3 sets of 10-15 reps\<newline>- Mountain climbers: 3 sets of 10-15 reps\<newline>- Cool-down: 5-10 minutes of light stretching\<newline>\<newline>Day 2:\<newline>- Bodyweight squats: 3 sets of 10-15 reps\<newline>- Push-ups: 3 sets of 10-15 reps\<newline>- Walking lunges: 3 sets of 10-15 reps\<newline>- Plank: 3 sets of 10-15 reps\<newline>- Mountain climbers: 3 sets of 10-15 reps\<newline>- Cool-down: 5-10 minutes of light stretching\<newline>\<newline>Day 3:\<newline>- Bodyweight squats: 3 sets of 10-15 reps\<newline>- Push-ups: 3 sets of 10-15 reps\<newline>- Walking lunges: 3 sets of 10-15 reps\<newline>- Plank: 3 sets of 10-15 reps\<newline>- Mountain climbers: 3 sets of 10-15 reps\<newline>- Cool-down: 5-10 minutes of light stretching\<newline>\<newline>''"
    by code_simp
  from beginner_weight_loss_example [of None always_first]
  obtain s1 s2 s3 g' where
    "create_workout_plan ''beginner'' ''weight loss'' 3 ''no equipment'' False None always_first
           = Inr (''Workout Plan (beginner level, weight loss focus, 3 days/week, no equipment):\<newline>\<newline>''
                @ (''Day 1:\<newline>''
                     @ concat (map (\<lambda>exercise. ''- '' @ exercise @ '': 3 sets of 10-15 reps\<newline>'') s1)
                     @ ''- Cool-down: 5-10 minutes of light stretching\<newline>\<newline>'')
                @ (''Day 2:\<newline>''
                     @ concat (map (\<lambda>exercise. ''- '' @ exercise @ '': 3 sets of 10-15 reps\<newline>'') s2)
                     @ ''- Cool-down: 5-10 minutes of light stretching\<newline>\<newline>'')
                @ (''Day 3:\<newline>''
                     @ concat (map (\<lambda>exercise. ''- '' @ exercise @ '': 3 sets of 10-15 reps\<newline>'') s3)
                     @ ''- Cool-down: 5-10 minutes of light stretching\<newline>\<newline>'')
                @ advisory None,
              g')"
    "\<forall>sel \<in> {s1, s2, s3}.
               length sel = 5
               \<and> set sel \<subseteq> {''Bodyweight squats'', ''Push-ups'', ''Walking lunges'', ''Plank'',
                               ''Mountain climbers''}"
    by (elim exE conjE)
  then have "\<exists>s1 s2 s3 g'.
         create_workout_plan ''beginner'' ''weight loss'' 3 ''no equipment'' False None always_first
           = Inr (''Workout Plan (beginner level, weight loss focus, 3 days/week, no equipment):\<newline>\<newline>''
                @ (''Day 1:\<newline>''
                     @ concat (map (\<lambda>exercise. ''- '' @ exercise @ '': 3 sets of 10-15 reps\<newline>'') s1)
                     @ ''- Cool-down: 5-10 minutes of light stretching\<newline>\<newline>'')
                @ (''Day 2:\<newline>''
                     @ concat (map (\<lambda>exercise. ''- '' @ exercise @ '': 3 sets of 10-15 reps\<newline>'') s2)
                     @ ''- Cool-down: 5-10 minutes of light stretching\<newline>\<newline>'')
                @ (''Day 3:\<newline>''
                     @ concat (map (\<lambda>exercise. ''- '' @ exercise @ '': 3 sets of 10-15 reps\<newline>'') s3)
                     @ ''- Cool-down: 5-10 minutes of light stretching\<newline>\<newline>'')
                @ advisory None,
              g')
         \<and> (\<forall>sel \<in> {s1, s2, s3}.
               length sel = 5
               \<and> set sel \<subseteq> {''Bodyweight squats'', ''Push-ups'', ''Walking lunges'', ''Plank'',
                               ''Mountain climbers''})"
    by (intro exI conjI)
  with t show ?thesis by (rule conjI)
qed

text \<open>
  Claim C8, as stated: for every valid request the pool has at most 17 entries. It fails:
  the advanced tier with body-weight exercises only draws from all three body-weight
  tiers of seven names each, a pool of 21.
\<close>

theorem pool_bound_17_counterexample:
  "valid_request ''advanced'' 1 ''full gym''
   \<and> \<not> isl (exercise_pool ''advanced'' ''full gym'' True)
   \<and> length (projr (exercise_pool ''advanced'' ''full gym'' True)) = 21
   \<and> \<not> length (projr (exercise_pool ''advanced'' ''full gym'' True)) \<le> 17"
  by code_simp

text \<open>
  Claim C8, amended: for every valid request the pool has at most 21 entries, and at
  most 15 when the body-weight flag is off.
\<close>

theorem pool_bound_21:
  assumes "valid_request fitness_level days_per_week equipment"
  shows "\<exists>pool. exercise_pool fitness_level equipment body_weight_only = Inr pool
           \<and> length pool \<le> 21 \<and> (\<not> body_weight_only \<longrightarrow> length pool \<le> 15)"
proof -
  let ?pool = "cumulative_pool fitness_level equipment body_weight_only"
  have "exercise_pool fitness_level equipment body_weight_only = Inr ?pool"
    by (rule pool_cumulative [OF assms])
  moreover have "length ?pool \<le> 21"
    by (rule pool_at_most_21 [OF assms])
  moreover have "\<not> body_weight_only \<longrightarrow> length ?pool \<le> 15"
    using pool_length [OF assms, of body_weight_only] tiers_upto_length [of fitness_level]
    by (cases body_weight_only) simp_all
  ultimately show ?thesis by (intro exI conjI)
qed

theorem pool_bound_21_witness:
  "valid_request ''advanced'' 7 ''basic dumbbells''
   \<and> (\<exists>pool. exercise_pool ''advanced'' ''basic dumbbells'' False = Inr pool
         \<and> length pool \<le> 21 \<and> (\<not> False \<longrightarrow> length pool \<le> 15))"
proof -
  have v: "valid_request ''advanced'' 7 ''basic dumbbells''"
    by (simp add: valid_request_iff)
  from v pool_bound_21 [OF v, of False] show ?thesis by (rule conjI)
qed

text \<open>
  Claim C9. The equipment check also applies when only body-weight exercises are asked
  for: with a recognised tier and a day count from 1 to 7, an equipment string outside
  the three categories gives the equipment message and no plan, although the
  body-weight pool is the same for every equipment string.
\<close>

theorem equipment_checked_for_body_weight:
  assumes "fitness_level \<in> {''beginner'', ''intermediate'', ''advanced''}"
    and "1 \<le> days_per_week" and "days_per_week \<le> 7"
    and "equipment \<notin> {''full gym'', ''basic dumbbells'', ''no equipment''}"
  shows "create_workout_plan fitness_level goal days_per_week equipment True duration g
           = Inr (''Invalid equipment option. Please choose full gym, basic dumbbells, or no equipment.'', g)
         \<and> exercise_pool fitness_level equipment True = exercise_pool fitness_level ''no equipment'' True"
proof -
  from assms(1) have "exercises fitness_level \<noteq> None"
    using exercises_dom [of fitness_level] by simp
  then obtain row where "exercises fitness_level = Some row" by blast
  with assms(2-4) show ?thesis
    by (simp add: create_workout_plan_def invalid_equipment_def exercise_pool_def)
qed

theorem equipment_checked_for_body_weight_witness:
  "create_workout_plan ''advanced'' ''endurance'' 4 ''home gym'' True (Some 30) always_first
     = Inr (''Invalid equipment option. Please choose full gym, basic dumbbells, or no equipment.'',
            always_first)
   \<and> exercise_pool ''advanced'' ''home gym'' True = exercise_pool ''advanced'' ''no equipment'' True"
  using equipment_checked_for_body_weight
          [of "''advanced''" 4 "''home gym''" "''endurance''" "Some 30" always_first]
  by simp



end
